theory Spec2Isabelle
  imports Complex_Main
begin

section \<open>Values exchanged with the outside world\<close>

text \<open>
  The handler of \<^verbatim>\<open>src/main.py\<close> talks to three collaborators: the memory service through
  \<^verbatim>\<open>requests.get\<close> and \<^verbatim>\<open>requests.post\<close>, and the inference service through
  \<^verbatim>\<open>groq_client.chat.completions.create\<close>. What they answer is not under the handler's
  control, so each is a function of the environment; what the handler does with the answers
  is modelled from the source.

  \<open>pyval\<close> is what \<^verbatim>\<open>response.json()\<close> can return: the Python value decoded from a JSON
  text. A decoded dict has distinct keys, so it is an association list read with
  \<open>map_of\<close>. A float is given by its value; the handler only ever asks whether it is zero.
\<close>

datatype pyval =
    PNone
  | PBool bool
  | PInt int
  | PFloat rat
  | PStr string
  | PList "pyval list"
  | PDict "(string \<times> pyval) list"

text \<open>
  The exception classes the handler can meet. \<open>RequestException\<close> stands for
  \<^verbatim>\<open>requests.exceptions.RequestException\<close> and all its subclasses (ConnectionError, Timeout,
  HTTPError, and the JSONDecodeError of recent versions of requests); \<open>OtherException\<close> for
  any other subclass of \<^verbatim>\<open>Exception\<close>.
\<close>

datatype exc_class =
    RequestException
  | KeyError
  | TypeError
  | AttributeError
  | IndexError
  | OtherException

type_synonym headers = "(string \<times> string) list"

text \<open>
  A \<^verbatim>\<open>requests.Response\<close>: the fields \<^verbatim>\<open>raise_for_status\<close> reads, and what the method
  \<^verbatim>\<open>json()\<close> does: it raises an exception of some class with some text (which class
  depends on the installed version of requests), or returns the decoded body.
\<close>

record response =
  status_code :: int
  reason :: string
  url :: string
  json :: "(exc_class \<times> string) + pyval"

text \<open>One entry of the \<^verbatim>\<open>messages\<close> argument: \<^verbatim>\<open>{"role": ..., "content": ...}\<close>.\<close>

record chat_message =
  role :: string
  content :: string

text \<open>
  A chat completion as far as the handler reads it: the list \<^verbatim>\<open>choices\<close>, each choice given
  by its \<^verbatim>\<open>message.content\<close>, which the client library types as an optional string.
\<close>

record chat_completion =
  choices :: "string option list"

text \<open>
  The environment of one request. \<open>requests_get\<close> and \<open>requests_post\<close> return a response or
  raise a \<open>RequestException\<close> (\<open>Inl\<close> its text): every exception that requests raises for a
  failed call derives from that class. \<open>groq_create\<close> returns a completion or raises any
  exception (\<open>Inl\<close> its text).
\<close>

record env =
  MEM0_API_KEY :: "string option"
  requests_get :: "string \<Rightarrow> headers \<Rightarrow> (string \<times> string) list \<Rightarrow> string + response"
  groq_create :: "chat_message list \<Rightarrow> string \<Rightarrow> rat \<Rightarrow> string + chat_completion"
  requests_post :: "string \<Rightarrow> headers \<Rightarrow> (string \<times> string) list \<Rightarrow> string + response"

text \<open>What a run of the handler does that can be observed from outside, in order.\<close>

datatype event =
    Print string
  | RequestsGet string headers "(string \<times> string) list"
  | GroqCreate "chat_message list" string rat
  | RequestsPost string headers "(string \<times> string) list"

text \<open>
  How the handler ends: it returns \<^verbatim>\<open>{"reply": ai_response}\<close> (a 200 response), it raises
  \<^verbatim>\<open>HTTPException(status_code, detail)\<close>, or an exception leaves it uncaught.
\<close>

datatype outcome =
    Return "string option"
  | HTTPException int string
  | Uncaught exc_class

record ChatRequest =
  user_id :: string
  message :: string

section \<open>Python primitives used by the handler\<close>

definition NL :: string where
  "NL = [CHR 0x0A]"

definition QUOTE :: string where
  "QUOTE = [CHR 0x27]"

text \<open>\<^verbatim>\<open>str(x)\<close> for an optional string, as an f-string formats it.\<close>

fun str_opt :: "string option \<Rightarrow> string" where
  "str_opt None = ''None''"
| "str_opt (Some s) = s"

definition digit_char :: "nat \<Rightarrow> char" where
  "digit_char d = char_of (48 + d)"

function str_nat :: "nat \<Rightarrow> string" where
  "str_nat n = (if n < 10 then [digit_char n] else str_nat (n div 10) @ [digit_char (n mod 10)])"
  by pat_completeness auto
termination
  by (relation "measure id") auto

definition str_int :: "int \<Rightarrow> string" where
  "str_int i = (if i < 0 then ''-'' @ str_nat (nat (- i)) else str_nat (nat i))"

text \<open>Truth value of a decoded value, as \<^verbatim>\<open>if memories_data:\<close> tests it.\<close>

fun truthy :: "pyval \<Rightarrow> bool" where
  "truthy PNone = False"
| "truthy (PBool b) = b"
| "truthy (PInt i) = (i \<noteq> 0)"
| "truthy (PFloat r) = (r \<noteq> 0)"
| "truthy (PStr s) = (s \<noteq> [])"
| "truthy (PList xs) = (xs \<noteq> [])"
| "truthy (PDict kv) = (kv \<noteq> [])"

text \<open>\<^verbatim>\<open>d.get(key, default)\<close>: only a dict has the method.\<close>

fun dict_get :: "pyval \<Rightarrow> string \<Rightarrow> pyval \<Rightarrow> exc_class + pyval" where
  "dict_get (PDict kv) key dflt =
     (case map_of kv key of None \<Rightarrow> Inr dflt | Some v \<Rightarrow> Inr v)"
| "dict_get _ key dflt = Inl AttributeError"

text \<open>\<^verbatim>\<open>x[key]\<close> with a string key: a lookup in a dict, a TypeError on anything else.\<close>

fun getitem :: "pyval \<Rightarrow> string \<Rightarrow> exc_class + pyval" where
  "getitem (PDict kv) key =
     (case map_of kv key of None \<Rightarrow> Inl KeyError | Some v \<Rightarrow> Inr v)"
| "getitem _ key = Inl TypeError"

text \<open>
  The elements a \<^verbatim>\<open>for\<close> runs through: those of a list, the keys of a dict, the characters
  of a string; nothing else that JSON decodes to is iterable.
\<close>

fun py_iter :: "pyval \<Rightarrow> exc_class + pyval list" where
  "py_iter (PList xs) = Inr xs"
| "py_iter (PDict kv) = Inr (map (\<lambda>(k, v). PStr k) kv)"
| "py_iter (PStr s) = Inr (map (\<lambda>c. PStr [c]) s)"
| "py_iter _ = Inl TypeError"

text \<open>
  \<^verbatim>\<open>[mem['text'] for mem in ms]\<close>: the elements are read in order and the first failing
  subscript ends the comprehension.
\<close>

fun texts_of :: "pyval list \<Rightarrow> exc_class + pyval list" where
  "texts_of [] = Inr []"
| "texts_of (mem # ms) =
     (case getitem mem ''text'' of
        Inl e \<Rightarrow> Inl e
      | Inr v \<Rightarrow> (case texts_of ms of Inl e \<Rightarrow> Inl e | Inr vs \<Rightarrow> Inr (v # vs)))"

text \<open>\<^verbatim>\<open>sep.join(xs)\<close>: every item has to be a string.\<close>

fun join_strs :: "string \<Rightarrow> string list \<Rightarrow> string" where
  "join_strs sep [] = []"
| "join_strs sep [x] = x"
| "join_strs sep (x # y # ys) = x @ sep @ join_strs sep (y # ys)"

fun as_strs :: "pyval list \<Rightarrow> string list option" where
  "as_strs [] = Some []"
| "as_strs (PStr s # vs) = (case as_strs vs of None \<Rightarrow> None | Some ss \<Rightarrow> Some (s # ss))"
| "as_strs (_ # vs) = None"

definition str_join :: "string \<Rightarrow> pyval list \<Rightarrow> exc_class + string" where
  "str_join sep vs = (case as_strs vs of None \<Rightarrow> Inl TypeError | Some ss \<Rightarrow> Inr (join_strs sep ss))"

text \<open>
  \<^verbatim>\<open>response.raise_for_status()\<close>: an HTTPError for a status from 400 to 599, with the text
  requests gives it; nothing for any other status.
\<close>

definition raise_for_status :: "response \<Rightarrow> string option" where
  "raise_for_status r =
     (if 400 \<le> status_code r \<and> status_code r < 500
      then Some (str_int (status_code r) @ '' Client Error: '' @ reason r @ '' for url: '' @ url r)
      else if 500 \<le> status_code r \<and> status_code r < 600
      then Some (str_int (status_code r) @ '' Server Error: '' @ reason r @ '' for url: '' @ url r)
      else None)"

section \<open>The handler\<close>

definition MEM0_API_URL :: string where
  "MEM0_API_URL = ''https://api.mem0.ai/v1/memories''"

definition bootstrap_context :: string where
  "bootstrap_context =
     ''This is the first time we are talking. Let'' @ QUOTE @ ''s get to know each other.''"

definition system_prompt :: string where
  "system_prompt =
     ''You are a helpful and friendly personal assistant. '' @
     ''You have a perfect memory. Use the provided memories to personalize the conversation. '' @
     ''Be conversational and refer to past details naturally.''"

text \<open>
  Lines 37 to 44: from the decoded body to \<^verbatim>\<open>memory_context\<close>. None of the exceptions
  raised here is a \<open>RequestException\<close>.
\<close>

definition memory_context :: "pyval \<Rightarrow> exc_class + string" where
  "memory_context body =
     (case dict_get body ''memories'' (PList []) of
        Inl e \<Rightarrow> Inl e
      | Inr memories_data \<Rightarrow>
          if truthy memories_data then
            (case py_iter memories_data of
               Inl e \<Rightarrow> Inl e
             | Inr ms \<Rightarrow>
                 (case texts_of ms of
                    Inl e \<Rightarrow> Inl e
                  | Inr vs \<Rightarrow>
                      (case str_join NL vs of
                         Inl e \<Rightarrow> Inl e
                       | Inr formatted_memories \<Rightarrow>
                           Inr (''--- Start of Memories ---'' @ NL @ formatted_memories @ NL @
                                ''--- End of Memories ---''))))
          else Inr bootstrap_context)"

text \<open>Lines 46 to 48: the \<^verbatim>\<open>except\<close> clause of the first step.\<close>

definition retrieval_failed :: "event list \<Rightarrow> string \<Rightarrow> outcome \<times> event list" where
  "retrieval_failed t e =
     (HTTPException 500 ''Failed to retrieve memories.'',
      t @ [Print (''Error retrieving memories: '' @ e)])"

text \<open>Lines 69 to 71: the \<^verbatim>\<open>except\<close> clause of the second step.\<close>

definition generation_failed :: "event list \<Rightarrow> string \<Rightarrow> outcome \<times> event list" where
  "generation_failed t e =
     (HTTPException 500 ''Failed to get response from LLM.'',
      t @ [Print (''Error calling Groq: '' @ e)])"

text \<open>Lines 74 to 88: the memory write, and the return.\<close>

definition save_interaction ::
  "env \<Rightarrow> ChatRequest \<Rightarrow> headers \<Rightarrow> string option \<Rightarrow> event list \<Rightarrow> outcome \<times> event list" where
  "save_interaction e request hdrs ai_response t =
     (let interaction_to_save =
            ''User said: '' @ QUOTE @ message request @ QUOTE @ ''. You replied: '' @ QUOTE @
            str_opt ai_response @ QUOTE;
          payload = [(''user_id'', user_id request), (''data'', interaction_to_save)];
          t3 = t @ [RequestsPost MEM0_API_URL hdrs payload]
      in case requests_post e MEM0_API_URL hdrs payload of
           Inr _ \<Rightarrow> (Return ai_response, t3 @ [Print ''Successfully saved interaction to Mem0.''])
         | Inl ex \<Rightarrow> (Return ai_response, t3 @ [Print (''Warning: Could not save memory: '' @ ex)]))"

text \<open>Lines 51 to 71: the inference call. \<^verbatim>\<open>choices[0]\<close> raises IndexError on an empty list.\<close>

definition call_groq ::
  "env \<Rightarrow> ChatRequest \<Rightarrow> headers \<Rightarrow> string \<Rightarrow> event list \<Rightarrow> outcome \<times> event list" where
  "call_groq e request hdrs ctx t =
     (let messages =
            [\<lparr>role = ''system'', content = system_prompt\<rparr>,
             \<lparr>role = ''system'', content = ctx\<rparr>,
             \<lparr>role = ''user'', content = message request\<rparr>];
          t2 = t @ [GroqCreate messages ''llama3-8b-8192'' (7 / 10)]
      in case groq_create e messages ''llama3-8b-8192'' (7 / 10) of
           Inl ex \<Rightarrow> generation_failed t2 ex
         | Inr completion \<Rightarrow>
             (case choices completion of
                [] \<Rightarrow> generation_failed t2 ''list index out of range''
              | ai_response # _ \<Rightarrow> save_interaction e request hdrs ai_response t2))"

text \<open>Lines 27 to 88.\<close>

definition handle_chat :: "env \<Rightarrow> ChatRequest \<Rightarrow> outcome \<times> event list" where
  "handle_chat e request =
     (let t0 = [Print (''Received message from user: '' @ user_id request)];
          hdrs = [(''Authorization'', ''Bearer '' @ str_opt (MEM0_API_KEY e))];
          params = [(''user_id'', user_id request)];
          t1 = t0 @ [RequestsGet MEM0_API_URL hdrs params]
      in case requests_get e MEM0_API_URL hdrs params of
           Inl ex \<Rightarrow> retrieval_failed t1 ex
         | Inr resp \<Rightarrow>
             (case raise_for_status resp of
                Some ex \<Rightarrow> retrieval_failed t1 ex
              | None \<Rightarrow>
                  (case json resp of
                     Inl (c, ex) \<Rightarrow>
                       if c = RequestException then retrieval_failed t1 ex else (Uncaught c, t1)
                   | Inr body \<Rightarrow>
                       (case memory_context body of
                          Inl c \<Rightarrow> (Uncaught c, t1)
                        | Inr ctx \<Rightarrow> call_groq e request hdrs ctx t1))))"

section \<open>The request body\<close>

text \<open>
  \<^verbatim>\<open>class ChatRequest(BaseModel)\<close> declares two fields of type \<^verbatim>\<open>str\<close> and no validator
  or constraint. Validation takes a string as it is; what it does with a value that is not
  a string depends on the version of the validation library (one version converts numbers,
  another rejects them), so that part is the parameter \<open>coerce\<close>.
\<close>

definition validate_str :: "(pyval \<Rightarrow> string option) \<Rightarrow> pyval \<Rightarrow> string option" where
  "validate_str coerce v = (case v of PStr s \<Rightarrow> Some s | _ \<Rightarrow> coerce v)"

text \<open>Both fields are required; other keys of the body are ignored.\<close>

definition parse_ChatRequest :: "(pyval \<Rightarrow> string option) \<Rightarrow> pyval \<Rightarrow> ChatRequest option" where
  "parse_ChatRequest coerce body =
     (case body of
        PDict kv \<Rightarrow>
          (case map_of kv ''user_id'' of
             None \<Rightarrow> None
           | Some u \<Rightarrow>
               (case map_of kv ''message'' of
                  None \<Rightarrow> None
                | Some m \<Rightarrow>
                    (case validate_str coerce u of
                       None \<Rightarrow> None
                     | Some u' \<Rightarrow>
                         (case validate_str coerce m of
                            None \<Rightarrow> None
                          | Some m' \<Rightarrow> Some \<lparr>user_id = u', message = m'\<rparr>))))
      | _ \<Rightarrow> None)"

text \<open>
  \<^verbatim>\<open>@app.post("/chat")\<close>: the handler runs on the validated request; a body that does not
  validate is rejected before the handler is called (\<open>None\<close>).
\<close>

definition post_chat ::
  "env \<Rightarrow> (pyval \<Rightarrow> string option) \<Rightarrow> pyval \<Rightarrow> (outcome \<times> event list) option" where
  "post_chat e coerce body =
     (case parse_ChatRequest coerce body of
        None \<Rightarrow> None
      | Some request \<Rightarrow> Some (handle_chat e request))"

section \<open>Reading a run\<close>

fun is_inference :: "event \<Rightarrow> bool" where
  "is_inference (GroqCreate ms m t) = True"
| "is_inference _ = False"

fun is_memory_write :: "event \<Rightarrow> bool" where
  "is_memory_write (RequestsPost u h d) = True"
| "is_memory_write _ = False"

text \<open>The text of a memory record: the string under \<^verbatim>\<open>'text'\<close> of a dict.\<close>

fun record_text :: "pyval \<Rightarrow> string option" where
  "record_text (PDict kv) = (case map_of kv ''text'' of Some (PStr t) \<Rightarrow> Some t | _ \<Rightarrow> None)"
| "record_text _ = None"

fun is_dict :: "pyval \<Rightarrow> bool" where
  "is_dict (PDict kv) = True"
| "is_dict _ = False"

section \<open>Example runs\<close>

text \<open>
  An environment in which each collaborator gives one fixed answer, and the request of the
  scenario of the specification.
\<close>

definition example_response :: "int \<Rightarrow> pyval \<Rightarrow> response" where
  "example_response status body =
     \<lparr>status_code = status, reason = ''reason'', url = MEM0_API_URL, json = Inr body\<rparr>"

definition example_env ::
  "(string + response) \<Rightarrow> (string + chat_completion) \<Rightarrow> (string + response) \<Rightarrow> env" where
  "example_env g c p =
     \<lparr>MEM0_API_KEY = Some ''key'',
      requests_get = (\<lambda>u h q. g),
      groq_create = (\<lambda>ms m t. c),
      requests_post = (\<lambda>u h d. p)\<rparr>"

definition sam_request :: ChatRequest where
  "sam_request = \<lparr>user_id = ''u1'', message = ''Hi, I'' @ QUOTE @ ''m Sam''\<rparr>"

definition hello_sam :: "string + chat_completion" where
  "hello_sam = Inr \<lparr>choices = [Some ''Hello Sam!'']\<rparr>"

definition no_memories :: pyval where
  "no_memories = PDict [(''memories'', PList [])]"

definition two_memories :: pyval where
  "two_memories =
     PDict [(''memories'',
             PList [PDict [(''id'', PInt 1), (''text'', PStr ''likes tea'')],
                    PDict [(''text'', PStr ''lives in Oslo'')]])]"

definition env_status_300 :: env where
  "env_status_300 =
     example_env (Inr (example_response 300 no_memories)) hello_sam
       (Inr (example_response 200 PNone))"

definition empty_user_body :: pyval where
  "empty_user_body = PDict [(''user_id'', PStr []), (''message'', PStr ''hello'')]"

definition no_coercion :: "pyval \<Rightarrow> string option" where
  "no_coercion v = None"

section \<open>Steps of the handler\<close>

lemma raise_for_status_None:
  "raise_for_status r = None \<longleftrightarrow> \<not> (400 \<le> status_code r \<and> status_code r < 600)"
  by (auto simp: raise_for_status_def)

lemma handle_chat_retrieved:
  fixes e :: env and request :: ChatRequest
  defines "hdrs \<equiv> [(''Authorization'', ''Bearer '' @ str_opt (MEM0_API_KEY e))]"
  defines "params \<equiv> [(''user_id'', user_id request)]"
  assumes "requests_get e MEM0_API_URL hdrs params = Inr resp"
    and "\<not> (400 \<le> status_code resp \<and> status_code resp < 600)"
    and "json resp = Inr body"
    and "memory_context body = Inr ctx"
  shows "handle_chat e request =
           call_groq e request hdrs ctx
             [Print (''Received message from user: '' @ user_id request),
              RequestsGet MEM0_API_URL hdrs params]"
proof -
  have "raise_for_status resp = None"
    using assms(4) by (simp only: raise_for_status_None not_False_eq_True)
  with assms show ?thesis
    by (simp add: handle_chat_def Let_def)
qed

lemma example_status_code [simp]: "status_code (example_response s b) = s"
  and example_json [simp]: "json (example_response s b) = Inr b"
  by (simp_all add: example_response_def)

lemma example_env_simps [simp]:
  "MEM0_API_KEY (example_env g c p) = Some ''key''"
  "requests_get (example_env g c p) u h q = g"
  "groq_create (example_env g c p) ms m t = c"
  "requests_post (example_env g c p) u h d = p"
  by (simp_all add: example_env_def)

lemma memory_context_no_memories: "memory_context no_memories = Inr bootstrap_context"
  by (simp add: memory_context_def no_memories_def)

lemma call_groq_raises:
  assumes "groq_create e
             [\<lparr>role = ''system'', content = system_prompt\<rparr>,
              \<lparr>role = ''system'', content = ctx\<rparr>,
              \<lparr>role = ''user'', content = message request\<rparr>]
             ''llama3-8b-8192'' (7 / 10) = Inl ex"
  shows "call_groq e request hdrs ctx t =
           (HTTPException 500 ''Failed to get response from LLM.'',
            t @ [GroqCreate
                   [\<lparr>role = ''system'', content = system_prompt\<rparr>,
                    \<lparr>role = ''system'', content = ctx\<rparr>,
                    \<lparr>role = ''user'', content = message request\<rparr>]
                   ''llama3-8b-8192'' (7 / 10),
                 Print (''Error calling Groq: '' @ ex)])"
  using assms by (simp add: call_groq_def generation_failed_def Let_def)

lemma call_groq_returns:
  assumes "groq_create e
             [\<lparr>role = ''system'', content = system_prompt\<rparr>,
              \<lparr>role = ''system'', content = ctx\<rparr>,
              \<lparr>role = ''user'', content = message request\<rparr>]
             ''llama3-8b-8192'' (7 / 10) = Inr completion"
    and "choices completion = c # cs"
  shows "call_groq e request hdrs ctx t =
           save_interaction e request hdrs c
             (t @ [GroqCreate
                     [\<lparr>role = ''system'', content = system_prompt\<rparr>,
                      \<lparr>role = ''system'', content = ctx\<rparr>,
                      \<lparr>role = ''user'', content = message request\<rparr>]
                     ''llama3-8b-8192'' (7 / 10)])"
  using assms by (simp add: call_groq_def Let_def)

lemma save_interaction_reply: "fst (save_interaction e request hdrs c t) = Return c"
  by (simp add: save_interaction_def Let_def split: sum.splits)

lemma save_interaction_no_inference:
  "filter is_inference (snd (save_interaction e request hdrs c t)) = filter is_inference t"
  by (simp add: save_interaction_def Let_def split: sum.splits)

lemma call_groq_inference:
  "filter is_inference (snd (call_groq e request hdrs ctx t)) =
     filter is_inference t @
     [GroqCreate
        [\<lparr>role = ''system'', content = system_prompt\<rparr>,
         \<lparr>role = ''system'', content = ctx\<rparr>,
         \<lparr>role = ''user'', content = message request\<rparr>]
        ''llama3-8b-8192'' (7 / 10)]"
  by (simp add: call_groq_def generation_failed_def save_interaction_no_inference Let_def
      split: sum.splits list.splits)

lemma handle_chat_inference:
  fixes e :: env and request :: ChatRequest
  defines "hdrs \<equiv> [(''Authorization'', ''Bearer '' @ str_opt (MEM0_API_KEY e))]"
  defines "params \<equiv> [(''user_id'', user_id request)]"
  shows "filter is_inference (snd (handle_chat e request)) =
           (case requests_get e MEM0_API_URL hdrs params of
              Inl ex \<Rightarrow> []
            | Inr resp \<Rightarrow>
                (case raise_for_status resp of
                   Some ex \<Rightarrow> []
                 | None \<Rightarrow>
                     (case json resp of
                        Inl x \<Rightarrow> []
                      | Inr body \<Rightarrow>
                          (case memory_context body of
                             Inl c \<Rightarrow> []
                           | Inr ctx \<Rightarrow>
                               [GroqCreate
                                  [\<lparr>role = ''system'', content = system_prompt\<rparr>,
                                   \<lparr>role = ''system'', content = ctx\<rparr>,
                                   \<lparr>role = ''user'', content = message request\<rparr>]
                                  ''llama3-8b-8192'' (7 / 10)]))))"
  unfolding hdrs_def params_def
  by (simp add: handle_chat_def retrieval_failed_def call_groq_inference Let_def
      split: sum.splits option.splits prod.splits)

lemma record_text_getitem:
  "record_text r = Some t \<Longrightarrow> getitem r ''text'' = Inr (PStr t)"
  by (cases r) (auto split: option.splits pyval.splits)

lemma texts_of_records:
  "map record_text rs = map Some ts \<Longrightarrow> texts_of rs = Inr (map PStr ts)"
proof (induction rs arbitrary: ts)
  case Nil
  then show ?case by simp
next
  case (Cons r rs)
  then obtain t ts' where ts: "ts = t # ts'" and r: "record_text r = Some t"
    and rest: "map record_text rs = map Some ts'"
    by (cases ts) auto
  from Cons.IH [OF rest] record_text_getitem [OF r] show ?case
    by (simp add: ts)
qed

lemma as_strs_PStr: "as_strs (map PStr ts) = Some ts"
  by (induction ts) simp_all

lemma join_strs_lines:
  "ts \<noteq> [] \<Longrightarrow> join_strs sep ts @ sep = concat (map (\<lambda>t. t @ sep) ts)"
  by (induction sep ts rule: join_strs.induct) simp_all

lemma bootstrap_context_nonempty: "bootstrap_context \<noteq> []"
  by (simp add: bootstrap_context_def)

lemma texts_of_KeyError:
  assumes "list_all is_dict before" and "map_of r ''text'' = None"
  shows "texts_of (before @ PDict r # after) = Inl KeyError"
  using assms(1)
proof (induction before)
  case Nil
  from assms(2) show ?case by simp
next
  case (Cons m ms)
  then obtain d where "m = PDict d"
    by (cases m) auto
  with Cons show ?case
    by (simp split: option.splits)
qed

lemma validate_str_PStr: "validate_str coerce (PStr s) = Some s"
  by (simp add: validate_str_def)

lemma parse_ChatRequest_strings:
  assumes "map_of kv ''user_id'' = Some (PStr u)" and "map_of kv ''message'' = Some (PStr m)"
  shows "parse_ChatRequest coerce (PDict kv) = Some \<lparr>user_id = u, message = m\<rparr>"
  using assms by (simp add: parse_ChatRequest_def validate_str_PStr)

lemma parse_ChatRequest_Some:
  assumes "parse_ChatRequest coerce body = Some request"
  shows "\<exists>kv u m. body = PDict kv \<and> map_of kv ''user_id'' = Some u \<and>
           map_of kv ''message'' = Some m \<and>
           validate_str coerce u = Some (user_id request) \<and>
           validate_str coerce m = Some (message request)"
proof (cases body)
  case (PDict kv)
  with assms show ?thesis
    by (auto simp add: parse_ChatRequest_def split: option.splits)
qed (use assms in \<open>simp_all add: parse_ChatRequest_def\<close>)

section \<open>The claims\<close>

text \<open>
  C1. When the memory read and the inference call both succeed, the handler returns the
  200 reply whose \<^verbatim>\<open>reply\<close> is the message content of the first choice, unchanged, and
  the run holds exactly one memory write, placed after the inference call.
\<close>

theorem C1_reply_verbatim_one_write:
  fixes e :: env and request :: ChatRequest and ctx :: string and c :: "string option"
  defines "hdrs \<equiv> [(''Authorization'', ''Bearer '' @ str_opt (MEM0_API_KEY e))]"
  defines "params \<equiv> [(''user_id'', user_id request)]"
  defines "messages \<equiv>
             [\<lparr>role = ''system'', content = system_prompt\<rparr>,
              \<lparr>role = ''system'', content = ctx\<rparr>,
              \<lparr>role = ''user'', content = message request\<rparr>]"
  defines "payload \<equiv>
             [(''user_id'', user_id request),
              (''data'', ''User said: '' @ QUOTE @ message request @ QUOTE @ ''. You replied: '' @
                         QUOTE @ str_opt c @ QUOTE)]"
  assumes "requests_get e MEM0_API_URL hdrs params = Inr resp"
    and "\<not> (400 \<le> status_code resp \<and> status_code resp < 600)"
    and "json resp = Inr body"
    and "memory_context body = Inr ctx"
    and "groq_create e messages ''llama3-8b-8192'' (7 / 10) = Inr completion"
    and "choices completion = c # cs"
  shows "fst (handle_chat e request) = Return c \<and>
         (\<exists>line. snd (handle_chat e request) =
            [Print (''Received message from user: '' @ user_id request),
             RequestsGet MEM0_API_URL hdrs params,
             GroqCreate messages ''llama3-8b-8192'' (7 / 10),
             RequestsPost MEM0_API_URL hdrs payload,
             Print line]) \<and>
         length (filter is_memory_write (snd (handle_chat e request))) = 1"
proof -
  have "handle_chat e request =
          call_groq e request hdrs ctx
            [Print (''Received message from user: '' @ user_id request),
             RequestsGet MEM0_API_URL hdrs params]"
    unfolding hdrs_def params_def
    using assms(5-8) unfolding hdrs_def params_def by (rule handle_chat_retrieved)
  then show ?thesis
    using assms(9,10) unfolding messages_def payload_def
    by (cases "requests_post e MEM0_API_URL hdrs
                 [(''user_id'', user_id request),
                  (''data'', ''User said: '' @ QUOTE @ message request @ QUOTE @
                             ''. You replied: '' @ QUOTE @ str_opt c @ QUOTE)]")
       (simp_all add: call_groq_def save_interaction_def Let_def)
qed

theorem C1_witness:
  "fst (handle_chat (example_env (Inr (example_response 200 no_memories)) hello_sam
                       (Inr (example_response 201 PNone))) sam_request) =
     Return (Some ''Hello Sam!'') \<and>
   length (filter is_memory_write
     (snd (handle_chat (example_env (Inr (example_response 200 no_memories)) hello_sam
                          (Inr (example_response 201 PNone))) sam_request))) = 1"
  using C1_reply_verbatim_one_write
          [where e = "example_env (Inr (example_response 200 no_memories)) hello_sam
                        (Inr (example_response 201 PNone))"
             and request = sam_request and resp = "example_response 200 no_memories"
             and body = no_memories and ctx = bootstrap_context
             and completion = "\<lparr>choices = [Some ''Hello Sam!'']\<rparr>"
             and c = "Some ''Hello Sam!''" and cs = "[]"]
  by (simp add: hello_sam_def memory_context_no_memories)

text \<open>
  C2 as stated counts every status outside 200..299 as a failed read. The handler relies on
  \<^verbatim>\<open>raise_for_status\<close>, which raises for 400..599 only: a response with status 300 and a
  decodable body is processed like a success, the inference service is called and the
  reply is returned.
\<close>

theorem C2_counterexample:
  "requests_get env_status_300 MEM0_API_URL [(''Authorization'', ''Bearer key'')]
     [(''user_id'', ''u1'')] = Inr (example_response 300 no_memories) \<and>
   status_code (example_response 300 no_memories) = 300 \<and>
   fst (handle_chat env_status_300 sam_request) = Return (Some ''Hello Sam!'') \<and>
   length (filter is_inference (snd (handle_chat env_status_300 sam_request))) = 1"
  by (simp add: env_status_300_def handle_chat_def raise_for_status_def Let_def
      memory_context_no_memories call_groq_def hello_sam_def save_interaction_def)

text \<open>
  C2 (amended). When the memory read raises a request exception or returns a status from
  400 to 599, the handler raises the 500 error with detail
  \<^verbatim>\<open>Failed to retrieve memories.\<close> and the inference service is never called: the run is
  the first print, the GET and the error print.
\<close>

theorem C2_read_failure:
  fixes e :: env and request :: ChatRequest
  defines "hdrs \<equiv> [(''Authorization'', ''Bearer '' @ str_opt (MEM0_API_KEY e))]"
  defines "params \<equiv> [(''user_id'', user_id request)]"
  assumes "case requests_get e MEM0_API_URL hdrs params of
             Inl ex \<Rightarrow> True
           | Inr resp \<Rightarrow> 400 \<le> status_code resp \<and> status_code resp < 600"
  shows "fst (handle_chat e request) = HTTPException 500 ''Failed to retrieve memories.'' \<and>
         (\<exists>line. snd (handle_chat e request) =
            [Print (''Received message from user: '' @ user_id request),
             RequestsGet MEM0_API_URL hdrs params,
             Print line]) \<and>
         filter is_inference (snd (handle_chat e request)) = []"
proof (cases "requests_get e MEM0_API_URL hdrs params")
  case (Inl ex)
  then show ?thesis
    unfolding hdrs_def params_def
    by (simp add: handle_chat_def Let_def retrieval_failed_def)
next
  case (Inr resp)
  with assms(3) have "400 \<le> status_code resp \<and> status_code resp < 600"
    by simp
  then have "raise_for_status resp \<noteq> None"
    by (simp only: raise_for_status_None) simp
  then obtain ex where "raise_for_status resp = Some ex"
    by blast
  with Inr show ?thesis
    unfolding hdrs_def params_def
    by (simp add: handle_chat_def Let_def retrieval_failed_def)
qed

theorem C2_witness:
  "fst (handle_chat (example_env (Inl ''connection refused'') hello_sam
                       (Inr (example_response 200 PNone))) sam_request) =
     HTTPException 500 ''Failed to retrieve memories.'' \<and>
   filter is_inference
     (snd (handle_chat (example_env (Inl ''connection refused'') hello_sam
                          (Inr (example_response 200 PNone))) sam_request)) = [] \<and>
   fst (handle_chat (example_env (Inr (example_response 404 no_memories)) hello_sam
                       (Inr (example_response 200 PNone))) sam_request) =
     HTTPException 500 ''Failed to retrieve memories.'' \<and>
   filter is_inference
     (snd (handle_chat (example_env (Inr (example_response 404 no_memories)) hello_sam
                          (Inr (example_response 200 PNone))) sam_request)) = []"
  using C2_read_failure
          [where e = "example_env (Inl ''connection refused'') hello_sam
                        (Inr (example_response 200 PNone))"
             and request = sam_request]
        C2_read_failure
          [where e = "example_env (Inr (example_response 404 no_memories)) hello_sam
                        (Inr (example_response 200 PNone))"
             and request = sam_request]
  by simp

text \<open>
  C3. When the memory read succeeds and the inference call raises an exception, whatever
  its text, the handler raises the 500 error with detail
  \<^verbatim>\<open>Failed to get response from LLM.\<close> and no memory write is attempted.
\<close>

theorem C3_inference_failure:
  fixes e :: env and request :: ChatRequest and ctx :: string
  defines "hdrs \<equiv> [(''Authorization'', ''Bearer '' @ str_opt (MEM0_API_KEY e))]"
  defines "params \<equiv> [(''user_id'', user_id request)]"
  defines "messages \<equiv>
             [\<lparr>role = ''system'', content = system_prompt\<rparr>,
              \<lparr>role = ''system'', content = ctx\<rparr>,
              \<lparr>role = ''user'', content = message request\<rparr>]"
  assumes "requests_get e MEM0_API_URL hdrs params = Inr resp"
    and "\<not> (400 \<le> status_code resp \<and> status_code resp < 600)"
    and "json resp = Inr body"
    and "memory_context body = Inr ctx"
    and "groq_create e messages ''llama3-8b-8192'' (7 / 10) = Inl ex"
  shows "handle_chat e request =
           (HTTPException 500 ''Failed to get response from LLM.'',
            [Print (''Received message from user: '' @ user_id request),
             RequestsGet MEM0_API_URL hdrs params,
             GroqCreate messages ''llama3-8b-8192'' (7 / 10),
             Print (''Error calling Groq: '' @ ex)]) \<and>
         filter is_memory_write (snd (handle_chat e request)) = []"
proof -
  have "handle_chat e request =
          call_groq e request hdrs ctx
            [Print (''Received message from user: '' @ user_id request),
             RequestsGet MEM0_API_URL hdrs params]"
    using assms(4-7) unfolding hdrs_def params_def by (rule handle_chat_retrieved)
  moreover note call_groq_raises [OF assms(8) [unfolded messages_def]]
  ultimately show ?thesis
    unfolding messages_def by simp
qed

theorem C3_witness:
  "handle_chat (example_env (Inr (example_response 200 no_memories)) (Inl ''timed out'')
                  (Inr (example_response 200 PNone))) sam_request =
     (HTTPException 500 ''Failed to get response from LLM.'',
      [Print ''Received message from user: u1'',
       RequestsGet MEM0_API_URL [(''Authorization'', ''Bearer key'')] [(''user_id'', ''u1'')],
       GroqCreate
         [\<lparr>role = ''system'', content = system_prompt\<rparr>,
          \<lparr>role = ''system'', content = bootstrap_context\<rparr>,
          \<lparr>role = ''user'', content = message sam_request\<rparr>]
         ''llama3-8b-8192'' (7 / 10),
       Print ''Error calling Groq: timed out''])"
  using C3_inference_failure
          [where e = "example_env (Inr (example_response 200 no_memories)) (Inl ''timed out'')
                        (Inr (example_response 200 PNone))"
             and request = sam_request and resp = "example_response 200 no_memories"
             and body = no_memories and ctx = bootstrap_context and ex = "''timed out''"]
  by (simp add: memory_context_no_memories sam_request_def)

text \<open>
  C4. When the memory read and the inference call succeed and the memory write fails (it
  raises a request exception, or answers with a status outside 200..299), the handler
  still returns the reply computed before the write; whatever the write does (\<open>p\<close>), the
  reply is the same.
\<close>

theorem C4_write_failure:
  fixes e :: env and request :: ChatRequest and ctx :: string and c :: "string option"
  defines "hdrs \<equiv> [(''Authorization'', ''Bearer '' @ str_opt (MEM0_API_KEY e))]"
  defines "params \<equiv> [(''user_id'', user_id request)]"
  defines "messages \<equiv>
             [\<lparr>role = ''system'', content = system_prompt\<rparr>,
              \<lparr>role = ''system'', content = ctx\<rparr>,
              \<lparr>role = ''user'', content = message request\<rparr>]"
  defines "payload \<equiv>
             [(''user_id'', user_id request),
              (''data'', ''User said: '' @ QUOTE @ message request @ QUOTE @ ''. You replied: '' @
                         QUOTE @ str_opt c @ QUOTE)]"
  assumes "requests_get e MEM0_API_URL hdrs params = Inr resp"
    and "\<not> (400 \<le> status_code resp \<and> status_code resp < 600)"
    and "json resp = Inr body"
    and "memory_context body = Inr ctx"
    and "groq_create e messages ''llama3-8b-8192'' (7 / 10) = Inr completion"
    and "choices completion = c # cs"
    and "case requests_post e MEM0_API_URL hdrs payload of
           Inl ex \<Rightarrow> True
         | Inr written \<Rightarrow> \<not> (200 \<le> status_code written \<and> status_code written < 300)"
  shows "fst (handle_chat e request) = Return c \<and>
         fst (handle_chat (e\<lparr>requests_post := p\<rparr>) request) = Return c"
proof -
  have "handle_chat e request =
          call_groq e request hdrs ctx
            [Print (''Received message from user: '' @ user_id request),
             RequestsGet MEM0_API_URL hdrs params]"
    using assms(5-8) unfolding hdrs_def params_def by (rule handle_chat_retrieved)
  moreover note call_groq_returns [OF assms(9) [unfolded messages_def] assms(10)]
  ultimately have here: "fst (handle_chat e request) = Return c"
    by (simp add: save_interaction_reply)
  let ?e = "e\<lparr>requests_post := p\<rparr>"
  have "requests_get ?e MEM0_API_URL
          [(''Authorization'', ''Bearer '' @ str_opt (MEM0_API_KEY ?e))]
          [(''user_id'', user_id request)] = Inr resp"
    using assms(5) unfolding hdrs_def params_def by simp
  from handle_chat_retrieved [OF this assms(6-8)]
  have "handle_chat ?e request =
          call_groq ?e request hdrs ctx
            [Print (''Received message from user: '' @ user_id request),
             RequestsGet MEM0_API_URL hdrs params]"
    unfolding hdrs_def params_def by simp
  moreover have "groq_create ?e
             [\<lparr>role = ''system'', content = system_prompt\<rparr>,
              \<lparr>role = ''system'', content = ctx\<rparr>,
              \<lparr>role = ''user'', content = message request\<rparr>]
             ''llama3-8b-8192'' (7 / 10) = Inr completion"
    using assms(9) unfolding messages_def by simp
  note call_groq_returns [OF this assms(10)]
  ultimately have "fst (handle_chat ?e request) = Return c"
    by (simp add: save_interaction_reply)
  with here show ?thesis
    by simp
qed

theorem C4_witness:
  "fst (handle_chat (example_env (Inr (example_response 200 no_memories)) hello_sam
                       (Inl ''connection reset'')) sam_request) =
     Return (Some ''Hello Sam!'') \<and>
   fst (handle_chat (example_env (Inr (example_response 200 no_memories)) hello_sam
                       (Inr (example_response 500 PNone))) sam_request) =
     Return (Some ''Hello Sam!'')"
  using C4_write_failure
          [where e = "example_env (Inr (example_response 200 no_memories)) hello_sam
                        (Inl ''connection reset'')"
             and request = sam_request and resp = "example_response 200 no_memories"
             and body = no_memories and ctx = bootstrap_context
             and completion = "\<lparr>choices = [Some ''Hello Sam!'']\<rparr>"
             and c = "Some ''Hello Sam!''" and cs = "[]"]
        C4_write_failure
          [where e = "example_env (Inr (example_response 200 no_memories)) hello_sam
                        (Inr (example_response 500 PNone))"
             and request = sam_request and resp = "example_response 200 no_memories"
             and body = no_memories and ctx = bootstrap_context
             and completion = "\<lparr>choices = [Some ''Hello Sam!'']\<rparr>"
             and c = "Some ''Hello Sam!''" and cs = "[]"]
  by (simp add: hello_sam_def memory_context_no_memories)

text \<open>
  C5. For a body whose \<^verbatim>\<open>memories\<close> is a list of records with texts \<open>ts\<close>: if the list is
  not empty, the context is the start line, then each text once, in the order received and
  each followed by a newline, then the end line; if it is empty, the context is the
  bootstrap string, which is not the empty string.
\<close>

theorem C5_memory_context:
  assumes "body = PDict kv"
    and "map_of kv ''memories'' = Some (PList rs)"
    and "map record_text rs = map Some ts"
  shows "(rs \<noteq> [] \<longrightarrow>
            memory_context body =
              Inr (''--- Start of Memories ---'' @ NL @ concat (map (\<lambda>t. t @ NL) ts) @
                   ''--- End of Memories ---'')) \<and>
         (rs = [] \<longrightarrow> memory_context body = Inr bootstrap_context \<and> bootstrap_context \<noteq> [])"
proof (cases "rs = []")
  case True
  with assms(1,2) show ?thesis
    by (simp add: memory_context_def bootstrap_context_nonempty)
next
  case False
  with assms(3) have "ts \<noteq> []"
    by auto
  then have "join_strs NL ts @ NL = concat (map (\<lambda>t. t @ NL) ts)"
    by (rule join_strs_lines)
  moreover have "memory_context body =
      Inr (''--- Start of Memories ---'' @ NL @ (join_strs NL ts @ NL) @ ''--- End of Memories ---'')"
    using assms(1,2) False texts_of_records [OF assms(3)]
    by (simp add: memory_context_def str_join_def as_strs_PStr)
  ultimately show ?thesis
    using False by simp
qed

theorem C5_witness:
  "memory_context two_memories =
     Inr (''--- Start of Memories ---'' @ NL @ ''likes tea'' @ NL @ ''lives in Oslo'' @ NL @
          ''--- End of Memories ---'') \<and>
   memory_context no_memories = Inr bootstrap_context"
  using C5_memory_context
          [where body = two_memories and rs = "[PDict [(''id'', PInt 1), (''text'', PStr ''likes tea'')],
                    PDict [(''text'', PStr ''lives in Oslo'')]]"
             and ts = "[''likes tea'', ''lives in Oslo'']"
             and kv = "[(''memories'',
             PList [PDict [(''id'', PInt 1), (''text'', PStr ''likes tea'')],
                    PDict [(''text'', PStr ''lives in Oslo'')]])]"]
        C5_memory_context
          [where body = no_memories and rs = "[]" and ts = "[]"
             and kv = "[(''memories'', PList [])]"]
  by (simp add: two_memories_def no_memories_def)

text \<open>
  C6. Every inference call of a run has exactly three messages, in this order: the system
  persona, the memory context built from the decoded body of the memory read as a second
  system message, and the user's message as the user turn; the model is
  \<^verbatim>\<open>llama3-8b-8192\<close> and the temperature is the literal 0.7.
\<close>

theorem C6_inference_arguments:
  fixes e :: env and request :: ChatRequest
  defines "hdrs \<equiv> [(''Authorization'', ''Bearer '' @ str_opt (MEM0_API_KEY e))]"
  defines "params \<equiv> [(''user_id'', user_id request)]"
  assumes "ev \<in> set (snd (handle_chat e request))" and "is_inference ev"
  shows "\<exists>resp body ctx.
           requests_get e MEM0_API_URL hdrs params = Inr resp \<and>
           json resp = Inr body \<and>
           memory_context body = Inr ctx \<and>
           ev = GroqCreate
                  [\<lparr>role = ''system'', content = system_prompt\<rparr>,
                   \<lparr>role = ''system'', content = ctx\<rparr>,
                   \<lparr>role = ''user'', content = message request\<rparr>]
                  ''llama3-8b-8192'' (7 / 10)"
proof -
  note run = handle_chat_inference [of e request, folded hdrs_def params_def]
  from assms(3,4) have ev: "ev \<in> set (filter is_inference (snd (handle_chat e request)))"
    by simp
  show ?thesis
  proof (cases "requests_get e MEM0_API_URL hdrs params")
    case (Inl ex)
    with ev show ?thesis
      by (simp add: run)
  next
    case get: (Inr resp)
    show ?thesis
    proof (cases "raise_for_status resp")
      case (Some ex)
      with ev get show ?thesis
        by (simp add: run)
    next
      case status: None
      show ?thesis
      proof (cases "json resp")
        case (Inl x)
        with ev get status show ?thesis
          by (simp add: run)
      next
        case decoded: (Inr body)
        show ?thesis
        proof (cases "memory_context body")
          case (Inl c)
          with ev get status decoded show ?thesis
            by (simp add: run)
        next
          case (Inr ctx)
          with ev get status decoded
          have "ev = GroqCreate
                  [\<lparr>role = ''system'', content = system_prompt\<rparr>,
                   \<lparr>role = ''system'', content = ctx\<rparr>,
                   \<lparr>role = ''user'', content = message request\<rparr>]
                  ''llama3-8b-8192'' (7 / 10)"
            by (simp add: run)
          with get decoded Inr show ?thesis
            by blast
        qed
      qed
    qed
  qed
qed

theorem C6_witness:
  "GroqCreate
     [\<lparr>role = ''system'', content = system_prompt\<rparr>,
      \<lparr>role = ''system'', content = bootstrap_context\<rparr>,
      \<lparr>role = ''user'', content = message sam_request\<rparr>]
     ''llama3-8b-8192'' (7 / 10)
   \<in> set (snd (handle_chat (example_env (Inr (example_response 200 no_memories)) hello_sam
                          (Inr (example_response 200 PNone))) sam_request)) \<and>
   (\<exists>ctx. memory_context no_memories = Inr ctx \<and>
      GroqCreate
        [\<lparr>role = ''system'', content = system_prompt\<rparr>,
         \<lparr>role = ''system'', content = bootstrap_context\<rparr>,
         \<lparr>role = ''user'', content = message sam_request\<rparr>]
        ''llama3-8b-8192'' (7 / 10) =
      GroqCreate
        [\<lparr>role = ''system'', content = system_prompt\<rparr>,
         \<lparr>role = ''system'', content = ctx\<rparr>,
         \<lparr>role = ''user'', content = message sam_request\<rparr>]
        ''llama3-8b-8192'' (7 / 10))"
proof -
  let ?e = "example_env (Inr (example_response 200 no_memories)) hello_sam
              (Inr (example_response 200 PNone))"
  let ?ev = "GroqCreate
     [\<lparr>role = ''system'', content = system_prompt\<rparr>,
      \<lparr>role = ''system'', content = bootstrap_context\<rparr>,
      \<lparr>role = ''user'', content = message sam_request\<rparr>]
     ''llama3-8b-8192'' (7 / 10)"
  have run: "?ev \<in> set (snd (handle_chat ?e sam_request))"
    by (simp add: handle_chat_def raise_for_status_def Let_def memory_context_no_memories
        call_groq_def hello_sam_def save_interaction_def)
  have "is_inference ?ev"
    by simp
  with run C6_inference_arguments [of ?ev ?e sam_request] show ?thesis
    by auto
qed

text \<open>
  C7 as stated has a body with an empty \<^verbatim>\<open>user_id\<close> rejected. The fields are declared as
  plain \<^verbatim>\<open>str\<close>, nothing checks the length: such a body is accepted and the handler runs
  on it, reading and writing memories under the empty user id.
\<close>

theorem C7_counterexample:
  "parse_ChatRequest no_coercion empty_user_body = Some \<lparr>user_id = [], message = ''hello''\<rparr> \<and>
   post_chat (example_env (Inr (example_response 200 no_memories)) hello_sam
                (Inr (example_response 200 PNone))) no_coercion empty_user_body =
     Some (Return (Some ''Hello Sam!''),
           [Print ''Received message from user: '',
            RequestsGet MEM0_API_URL [(''Authorization'', ''Bearer key'')] [(''user_id'', [])],
            GroqCreate
              [\<lparr>role = ''system'', content = system_prompt\<rparr>,
               \<lparr>role = ''system'', content = bootstrap_context\<rparr>,
               \<lparr>role = ''user'', content = ''hello''\<rparr>]
              ''llama3-8b-8192'' (7 / 10),
            RequestsPost MEM0_API_URL [(''Authorization'', ''Bearer key'')]
              [(''user_id'', []),
               (''data'', ''User said: '' @ QUOTE @ ''hello'' @ QUOTE @ ''. You replied: '' @
                          QUOTE @ ''Hello Sam!'' @ QUOTE)],
            Print ''Successfully saved interaction to Mem0.''])"
proof -
  have parsed: "parse_ChatRequest no_coercion empty_user_body =
                  Some \<lparr>user_id = [], message = ''hello''\<rparr>"
    unfolding empty_user_body_def by (rule parse_ChatRequest_strings) simp_all
  have run: "handle_chat (example_env (Inr (example_response 200 no_memories)) hello_sam
                (Inr (example_response 200 PNone))) \<lparr>user_id = [], message = ''hello''\<rparr> =
     (Return (Some ''Hello Sam!''),
           [Print ''Received message from user: '',
            RequestsGet MEM0_API_URL [(''Authorization'', ''Bearer key'')] [(''user_id'', [])],
            GroqCreate
              [\<lparr>role = ''system'', content = system_prompt\<rparr>,
               \<lparr>role = ''system'', content = bootstrap_context\<rparr>,
               \<lparr>role = ''user'', content = ''hello''\<rparr>]
              ''llama3-8b-8192'' (7 / 10),
            RequestsPost MEM0_API_URL [(''Authorization'', ''Bearer key'')]
              [(''user_id'', []),
               (''data'', ''User said: '' @ QUOTE @ ''hello'' @ QUOTE @ ''. You replied: '' @
                          QUOTE @ ''Hello Sam!'' @ QUOTE)],
            Print ''Successfully saved interaction to Mem0.''])"
    by (simp add: handle_chat_def raise_for_status_def Let_def memory_context_no_memories
        call_groq_def hello_sam_def save_interaction_def)
  from parsed run show ?thesis
    by (simp add: post_chat_def)
qed

text \<open>
  C7 (amended). Every accepted request comes from a body that is an object with both keys,
  and its \<^verbatim>\<open>user_id\<close> and \<^verbatim>\<open>message\<close> are the strings that validation gives for them; a body
  whose two fields are strings is accepted and handled whatever the strings are, the empty
  string included.
\<close>

theorem C7_accepted_requests:
  "(parse_ChatRequest coerce body = Some request \<longrightarrow>
      (\<exists>kv u m. body = PDict kv \<and> map_of kv ''user_id'' = Some u \<and>
         map_of kv ''message'' = Some m \<and>
         validate_str coerce u = Some (user_id request) \<and>
         validate_str coerce m = Some (message request))) \<and>
   (map_of kv' ''user_id'' = Some (PStr u') \<and> map_of kv' ''message'' = Some (PStr m') \<longrightarrow>
      post_chat e coerce (PDict kv') = Some (handle_chat e \<lparr>user_id = u', message = m'\<rparr>))"
proof (intro conjI impI)
  assume "parse_ChatRequest coerce body = Some request"
  then show "\<exists>kv u m. body = PDict kv \<and> map_of kv ''user_id'' = Some u \<and>
         map_of kv ''message'' = Some m \<and>
         validate_str coerce u = Some (user_id request) \<and>
         validate_str coerce m = Some (message request)"
    by (rule parse_ChatRequest_Some)
next
  assume "map_of kv' ''user_id'' = Some (PStr u') \<and> map_of kv' ''message'' = Some (PStr m')"
  then have "parse_ChatRequest coerce (PDict kv') = Some \<lparr>user_id = u', message = m'\<rparr>"
    by (simp add: parse_ChatRequest_strings)
  then show "post_chat e coerce (PDict kv') = Some (handle_chat e \<lparr>user_id = u', message = m'\<rparr>)"
    by (simp add: post_chat_def)
qed

theorem C7_witness:
  "parse_ChatRequest no_coercion empty_user_body = Some \<lparr>user_id = [], message = ''hello''\<rparr> \<and>
   validate_str no_coercion (PStr []) = Some [] \<and>
   post_chat (example_env (Inr (example_response 200 no_memories)) hello_sam
                (Inr (example_response 200 PNone))) no_coercion empty_user_body =
     Some (handle_chat (example_env (Inr (example_response 200 no_memories)) hello_sam
                (Inr (example_response 200 PNone))) \<lparr>user_id = [], message = ''hello''\<rparr>)"
proof -
  have parsed: "parse_ChatRequest no_coercion empty_user_body =
                  Some \<lparr>user_id = [], message = ''hello''\<rparr>"
    unfolding empty_user_body_def by (rule parse_ChatRequest_strings) simp_all
  note C7_accepted_requests
          [where kv' = "[(''user_id'', PStr []), (''message'', PStr ''hello'')]"
             and u' = "[]" and m' = "''hello''" and coerce = no_coercion
             and body = empty_user_body
             and request = "\<lparr>user_id = [], message = ''hello''\<rparr>"
             and e = "example_env (Inr (example_response 200 no_memories)) hello_sam
                (Inr (example_response 200 PNone))"]
  with parsed show ?thesis
    by (auto simp add: empty_user_body_def)
qed

text \<open>
  C8. When the memory read succeeds with a 2xx status and the \<^verbatim>\<open>memories\<close> list holds a
  record without the key \<^verbatim>\<open>text\<close> (the elements before it being records too), a KeyError
  leaves the handler uncaught, right after the GET: no 500 with the retrieval message, no
  inference call.
\<close>

theorem C8_missing_text_uncaught:
  fixes e :: env and request :: ChatRequest
  defines "hdrs \<equiv> [(''Authorization'', ''Bearer '' @ str_opt (MEM0_API_KEY e))]"
  defines "params \<equiv> [(''user_id'', user_id request)]"
  assumes "requests_get e MEM0_API_URL hdrs params = Inr resp"
    and "200 \<le> status_code resp \<and> status_code resp < 300"
    and "json resp = Inr (PDict kv)"
    and "map_of kv ''memories'' = Some (PList (before @ PDict r # after))"
    and "list_all is_dict before"
    and "map_of r ''text'' = None"
  shows "handle_chat e request =
           (Uncaught KeyError,
            [Print (''Received message from user: '' @ user_id request),
             RequestsGet MEM0_API_URL hdrs params])"
proof -
  have "raise_for_status resp = None"
    using assms(4) by (simp add: raise_for_status_None)
  moreover have "memory_context (PDict kv) = Inl KeyError"
    using assms(6) texts_of_KeyError [OF assms(7,8)]
    by (simp add: memory_context_def)
  ultimately show ?thesis
    using assms(3,5) unfolding hdrs_def params_def
    by (simp add: handle_chat_def Let_def)
qed

theorem C8_witness:
  "handle_chat
     (example_env
        (Inr (example_response 200
                (PDict [(''memories'',
                         PList [PDict [(''text'', PStr ''likes tea'')], PDict [(''id'', PInt 2)]])])))
        hello_sam (Inr (example_response 200 PNone)))
     sam_request =
   (Uncaught KeyError,
    [Print ''Received message from user: u1'',
     RequestsGet MEM0_API_URL [(''Authorization'', ''Bearer key'')] [(''user_id'', ''u1'')]])"
  using C8_missing_text_uncaught
          [where e = "example_env
            (Inr (example_response 200
                (PDict [(''memories'',
                         PList [PDict [(''text'', PStr ''likes tea'')], PDict [(''id'', PInt 2)]])])))
                hello_sam (Inr (example_response 200 PNone))"
             and request = sam_request
             and resp = "example_response 200
                (PDict [(''memories'',
                         PList [PDict [(''text'', PStr ''likes tea'')], PDict [(''id'', PInt 2)]])])"
             and kv = "[(''memories'',
                         PList [PDict [(''text'', PStr ''likes tea'')], PDict [(''id'', PInt 2)]])]"
             and before = "[PDict [(''text'', PStr ''likes tea'')]]"
             and r = "[(''id'', PInt 2)]" and after = "[]"]
  by (simp add: sam_request_def)

text \<open>
  C9. The response of the memory write is never looked at: whatever its status, no
  exception is raised, the success line is printed and the reply is returned.
\<close>

theorem C9_write_status_unchecked:
  fixes e :: env and request :: ChatRequest and ctx :: string and c :: "string option"
  defines "hdrs \<equiv> [(''Authorization'', ''Bearer '' @ str_opt (MEM0_API_KEY e))]"
  defines "params \<equiv> [(''user_id'', user_id request)]"
  defines "messages \<equiv>
             [\<lparr>role = ''system'', content = system_prompt\<rparr>,
              \<lparr>role = ''system'', content = ctx\<rparr>,
              \<lparr>role = ''user'', content = message request\<rparr>]"
  defines "payload \<equiv>
             [(''user_id'', user_id request),
              (''data'', ''User said: '' @ QUOTE @ message request @ QUOTE @ ''. You replied: '' @
                         QUOTE @ str_opt c @ QUOTE)]"
  assumes "requests_get e MEM0_API_URL hdrs params = Inr resp"
    and "\<not> (400 \<le> status_code resp \<and> status_code resp < 600)"
    and "json resp = Inr body"
    and "memory_context body = Inr ctx"
    and "groq_create e messages ''llama3-8b-8192'' (7 / 10) = Inr completion"
    and "choices completion = c # cs"
    and "requests_post e MEM0_API_URL hdrs payload = Inr written"
  shows "handle_chat e request =
           (Return c,
            [Print (''Received message from user: '' @ user_id request),
             RequestsGet MEM0_API_URL hdrs params,
             GroqCreate messages ''llama3-8b-8192'' (7 / 10),
             RequestsPost MEM0_API_URL hdrs payload,
             Print ''Successfully saved interaction to Mem0.''])"
proof -
  have "handle_chat e request =
          call_groq e request hdrs ctx
            [Print (''Received message from user: '' @ user_id request),
             RequestsGet MEM0_API_URL hdrs params]"
    using assms(5-8) unfolding hdrs_def params_def by (rule handle_chat_retrieved)
  moreover note call_groq_returns [OF assms(9) [unfolded messages_def] assms(10)]
  ultimately show ?thesis
    using assms(11) unfolding messages_def payload_def
    by (simp add: save_interaction_def Let_def)
qed

theorem C9_witness:
  "status_code (example_response 503 PNone) = 503 \<and>
   handle_chat (example_env (Inr (example_response 200 no_memories)) hello_sam
                  (Inr (example_response 503 PNone))) sam_request =
     (Return (Some ''Hello Sam!''),
      [Print ''Received message from user: u1'',
       RequestsGet MEM0_API_URL [(''Authorization'', ''Bearer key'')] [(''user_id'', ''u1'')],
       GroqCreate
         [\<lparr>role = ''system'', content = system_prompt\<rparr>,
          \<lparr>role = ''system'', content = bootstrap_context\<rparr>,
          \<lparr>role = ''user'', content = message sam_request\<rparr>]
         ''llama3-8b-8192'' (7 / 10),
       RequestsPost MEM0_API_URL [(''Authorization'', ''Bearer key'')]
         [(''user_id'', ''u1''),
          (''data'', ''User said: '' @ QUOTE @ message sam_request @ QUOTE @
                     ''. You replied: '' @ QUOTE @ ''Hello Sam!'' @ QUOTE)],
       Print ''Successfully saved interaction to Mem0.''])"
  using C9_write_status_unchecked
          [where e = "example_env (Inr (example_response 200 no_memories)) hello_sam
                        (Inr (example_response 503 PNone))"
             and request = sam_request and resp = "example_response 200 no_memories"
             and body = no_memories and ctx = bootstrap_context
             and completion = "\<lparr>choices = [Some ''Hello Sam!'']\<rparr>"
             and c = "Some ''Hello Sam!''" and cs = "[]"
             and written = "example_response 503 PNone"]
  by (simp add: hello_sam_def memory_context_no_memories sam_request_def)

text \<open>
  C10. When the memory read succeeds and the decoded body is an object without the key
  \<^verbatim>\<open>memories\<close>, the context is the bootstrap string and the handler goes on to the
  inference call with it: it neither raises the retrieval error nor lets an exception
  escape.
\<close>

theorem C10_no_memories_key:
  fixes e :: env and request :: ChatRequest
  defines "hdrs \<equiv> [(''Authorization'', ''Bearer '' @ str_opt (MEM0_API_KEY e))]"
  defines "params \<equiv> [(''user_id'', user_id request)]"
  assumes "requests_get e MEM0_API_URL hdrs params = Inr resp"
    and "\<not> (400 \<le> status_code resp \<and> status_code resp < 600)"
    and "json resp = Inr (PDict kv)"
    and "map_of kv ''memories'' = None"
  shows "memory_context (PDict kv) = Inr bootstrap_context \<and>
         (\<exists>rest. snd (handle_chat e request) =
            [Print (''Received message from user: '' @ user_id request),
             RequestsGet MEM0_API_URL hdrs params,
             GroqCreate
               [\<lparr>role = ''system'', content = system_prompt\<rparr>,
                \<lparr>role = ''system'', content = bootstrap_context\<rparr>,
                \<lparr>role = ''user'', content = message request\<rparr>]
               ''llama3-8b-8192'' (7 / 10)] @ rest) \<and>
         fst (handle_chat e request) \<noteq> HTTPException 500 ''Failed to retrieve memories.'' \<and>
         fst (handle_chat e request) \<noteq> Uncaught x"
proof -
  have ctx: "memory_context (PDict kv) = Inr bootstrap_context"
    using assms(6) by (simp add: memory_context_def)
  have "handle_chat e request =
          call_groq e request hdrs bootstrap_context
            [Print (''Received message from user: '' @ user_id request),
             RequestsGet MEM0_API_URL hdrs params]"
    using assms(3-5) ctx unfolding hdrs_def params_def by (rule handle_chat_retrieved)
  then show ?thesis
    using ctx
    by (auto simp add: call_groq_def generation_failed_def save_interaction_def Let_def
        split: sum.splits list.splits)
qed

theorem C10_witness:
  "memory_context (PDict [(''count'', PInt 0)]) = Inr bootstrap_context \<and>
   fst (handle_chat (example_env (Inr (example_response 200 (PDict [(''count'', PInt 0)])))
                       hello_sam (Inr (example_response 200 PNone))) sam_request) \<noteq>
     HTTPException 500 ''Failed to retrieve memories.''"
  using C10_no_memories_key
          [where e = "example_env (Inr (example_response 200 (PDict [(''count'', PInt 0)])))
                       hello_sam (Inr (example_response 200 PNone))"
             and request = sam_request
             and resp = "example_response 200 (PDict [(''count'', PInt 0)])"
             and kv = "[(''count'', PInt 0)]"]
  by simp

end
